theory Spec2Isabelle
  imports Complex_Main "HOL-Library.Multiset"
begin

section \<open>The swipe deck of rapid-studio\<close>

text \<open>
  The repository holds three card-swipe components. The enhanced \<open>SwipeDeck\<close>
  (\<^verbatim>\<open>src/unnamed/part_009\<close>) builds a \<open>SwipeRating\<close> for every committed swipe, keeps a
  rating batch, prefetches a window of the deck and asks for more images when the deck
  runs low. The basic \<open>SwipeDeck\<close> and \<open>SafeSwipeDeck\<close>
  (\<^verbatim>\<open>src/rapid-studio-clean/components/SwipeDeck.tsx\<close>) only move an index over five
  sample images.

  Conventions of the embedding:
  \<^item> JavaScript numbers that carry pixels, velocities and animation values are \<open>real\<close>
    (rounding of IEEE doubles and NaN are not modelled); indices and counters are
    \<open>nat\<close>; millisecond time stamps are \<open>int\<close>.
  \<^item> \<open>Date.now()\<close> is an argument of the handler that reads it.
  \<^item> A shared animation value holds the value assigned to it; for
    \<open>withSpring v\<close> and \<open>withTiming v\<close> that is the target \<open>v\<close> the animation settles at.
  \<^item> Calls to the outside (\<open>onSwipe\<close>, \<open>onNeedMoreImages\<close>, \<open>Image.prefetch\<close>,
    \<open>Haptics.impactAsync\<close>) are appended to logs kept in the component's record.
  \<^item> \<open>SCREEN_WIDTH\<close> comes from \<open>Dimensions.get\<close> when the module loads; it is the
    parameter \<open>W\<close>.
\<close>

subsection \<open>Data of the enhanced deck\<close>

datatype Tier = universal | demographic | personal

text \<open>The optional fields \<open>prompt\<close> and \<open>metadata\<close> are never read by the component; they
  live in the record's extension slot.\<close>

record ImageData =
  img_id :: string
  url :: string
  tier :: Tier

datatype Direction = left | right

record SwipeRating =
  imageId :: string
  direction :: Direction
  timestamp :: int
  swipeVelocity :: real
  confidence :: real
  hesitationTime :: int
  ratingTier :: Tier

datatype ImpactFeedbackStyle = Light | Medium | Heavy

text \<open>Props (\<open>images\<close>), React state (\<open>currentIndex\<close>, \<open>ratingBatch\<close>), refs
  (\<open>swipeStartTime\<close>, \<open>totalSwipes\<close>), shared animation values, and the logs of the calls
  made to the outside.\<close>

record SwipeDeck =
  images :: "ImageData list"
  currentIndex :: nat
  ratingBatch :: "SwipeRating list"
  swipeStartTime :: int
  totalSwipes :: nat
  translateX :: real
  translateY :: real
  rotation :: real
  scale :: real
  backgroundScale :: real
  onSwipe_calls :: "SwipeRating list"
  onNeedMoreImages_calls :: nat
  prefetch_calls :: "string list"
  haptic_calls :: "ImpactFeedbackStyle list"

definition initialDeck :: "ImageData list \<Rightarrow> SwipeDeck" where
  "initialDeck imgs =
     \<lparr>images = imgs, currentIndex = 0, ratingBatch = [], swipeStartTime = 0, totalSwipes = 0,
      translateX = 0, translateY = 0, rotation = 0, scale = 1, backgroundScale = 0.95,
      onSwipe_calls = [], onNeedMoreImages_calls = 0, prefetch_calls = [],
      haptic_calls = []\<rparr>"

definition SWIPE_THRESHOLD :: "real \<Rightarrow> real" where
  "SWIPE_THRESHOLD W = W * 0.25"

text \<open>\<open>xs[i]\<close> of JavaScript: \<open>undefined\<close> (here \<open>None\<close>) outside the array.\<close>

definition at_index :: "'a list \<Rightarrow> nat \<Rightarrow> 'a option" where
  "at_index xs i = (if i < length xs then Some (xs ! i) else None)"

subsection \<open>Committing a swipe\<close>

definition handleSwipeStart :: "int \<Rightarrow> SwipeDeck \<Rightarrow> SwipeDeck" where
  "handleSwipeStart now s = s\<lparr>swipeStartTime := now\<rparr>"

text \<open>The object literal of lines 125 to 133.\<close>

definition swipeRating :: "ImageData \<Rightarrow> Direction \<Rightarrow> real \<Rightarrow> int \<Rightarrow> int \<Rightarrow> SwipeRating" where
  "swipeRating currentImage dir velocity swipeEndTime hesitation =
     \<lparr>imageId = img_id currentImage,
      direction = dir,
      timestamp = swipeEndTime,
      swipeVelocity = \<bar>velocity\<bar>,
      confidence = min 1 (\<bar>velocity\<bar> / 1000),
      hesitationTime = hesitation,
      ratingTier = tier currentImage\<rparr>"

text \<open>The updater handed to \<open>setRatingBatch\<close> (lines 136 to 146): the new value of the
  state, and the ratings it passes to \<open>onSwipe\<close> on the way.\<close>

definition setRatingBatch_updater ::
  "SwipeRating list \<Rightarrow> SwipeRating \<Rightarrow> SwipeRating list \<times> SwipeRating list" where
  "setRatingBatch_updater prev rating =
     (let newBatch = prev @ [rating]
      in if length newBatch \<ge> 10 then ([], [rating]) else (newBatch, []))"

definition hapticIntensity :: "ImageData \<Rightarrow> Direction \<Rightarrow> ImpactFeedbackStyle" where
  "hapticIntensity currentImage dir =
     (if tier currentImage = personal then Heavy
      else if dir = right then Light else Medium)"

definition handleSwipeComplete :: "Direction \<Rightarrow> real \<Rightarrow> int \<Rightarrow> SwipeDeck \<Rightarrow> SwipeDeck" where
  "handleSwipeComplete dir velocity now s =
     (case at_index (images s) (currentIndex s) of
        None \<Rightarrow> s
      | Some currentImage \<Rightarrow>
          (let swipeEndTime = now;
               hesitation = swipeEndTime - swipeStartTime s;
               rating = swipeRating currentImage dir velocity swipeEndTime hesitation;
               upd = setRatingBatch_updater (ratingBatch s) rating
           in s\<lparr>totalSwipes := totalSwipes s + 1,
                ratingBatch := fst upd,
                onSwipe_calls := onSwipe_calls s @ snd upd,
                haptic_calls := haptic_calls s @ [hapticIntensity currentImage dir],
                currentIndex := currentIndex s + 1,
                translateX := 0,
                translateY := 0,
                rotation := 0,
                scale := 1,
                backgroundScale := 0.95\<rparr>))"

subsection \<open>The pan gesture\<close>

text \<open>
  \<open>interpolate\<close> is imported from react-native-reanimated, which is not part of the
  repository. It is modelled after that library's documented behaviour: the value is
  mapped linearly on the segment of the input range it falls in (the first or the last
  segment when it falls outside), and the optional fourth argument says what happens
  outside the range: \<open>EXTEND\<close>, the default when the argument is left out, keeps the
  linear value, \<open>CLAMP\<close> stops at the edge of the output range, \<open>IDENTITY\<close> returns the
  input. The two shapes the components call it with, two and three points, are
  \<open>interpolate2\<close> and \<open>interpolate3\<close>.
\<close>

datatype Extrapolation = EXTEND | CLAMP | IDENTITY

definition getVal :: "Extrapolation \<Rightarrow> real \<Rightarrow> real \<Rightarrow> real \<Rightarrow> real \<Rightarrow> real \<Rightarrow> real" where
  "getVal ex coef val leftEdgeOutput rightEdgeOutput x =
     (case ex of
        IDENTITY \<Rightarrow> x
      | CLAMP \<Rightarrow> (if coef * val < coef * leftEdgeOutput then leftEdgeOutput else rightEdgeOutput)
      | EXTEND \<Rightarrow> val)"

definition internalInterpolate ::
  "real \<Rightarrow> real \<Rightarrow> real \<Rightarrow> real \<Rightarrow> real \<Rightarrow> Extrapolation \<Rightarrow> real" where
  "internalInterpolate x leftEdgeInput rightEdgeInput leftEdgeOutput rightEdgeOutput ex =
     (if rightEdgeInput - leftEdgeInput = 0 then leftEdgeOutput
      else
        (let progress = (x - leftEdgeInput) / (rightEdgeInput - leftEdgeInput);
             val = leftEdgeOutput + progress * (rightEdgeOutput - leftEdgeOutput);
             coef = (if rightEdgeOutput \<ge> leftEdgeOutput then 1 else - 1)
         in if coef * val < coef * leftEdgeOutput
              then getVal ex coef val leftEdgeOutput rightEdgeOutput x
            else if coef * val > coef * rightEdgeOutput
              then getVal ex coef val leftEdgeOutput rightEdgeOutput x
            else val))"

definition interpolate2 ::
  "real \<Rightarrow> real \<times> real \<Rightarrow> real \<times> real \<Rightarrow> Extrapolation \<Rightarrow> real" where
  "interpolate2 x inputRange outputRange ex =
     internalInterpolate x (fst inputRange) (snd inputRange)
       (fst outputRange) (snd outputRange) ex"

definition interpolate3 ::
  "real \<Rightarrow> real \<times> real \<times> real \<Rightarrow> real \<times> real \<times> real \<Rightarrow> Extrapolation \<Rightarrow> real" where
  "interpolate3 x inputRange outputRange ex =
     (case (inputRange, outputRange) of
        ((i0, i1, i2), (o0, o1, o2)) \<Rightarrow>
          if x > i2 then internalInterpolate x i1 i2 o1 o2 ex
          else if x \<le> i1 then internalInterpolate x i0 i1 o0 o1 ex
          else internalInterpolate x i1 i2 o1 o2 ex)"

text \<open>\<open>onBegin\<close>, \<open>onUpdate\<close> and \<open>onEnd\<close> of \<open>panGesture\<close> (lines 167 to 209). The event
  carries \<open>translationX\<close>, \<open>translationY\<close> and, at the end, \<open>velocityX\<close>.\<close>

definition onBegin :: "int \<Rightarrow> SwipeDeck \<Rightarrow> SwipeDeck" where
  "onBegin now s = handleSwipeStart now s"

definition onUpdate :: "real \<Rightarrow> real \<Rightarrow> real \<Rightarrow> SwipeDeck \<Rightarrow> SwipeDeck" where
  "onUpdate W translationX translationY s =
     (let progress = \<bar>translationX\<bar> / SWIPE_THRESHOLD W
      in s\<lparr>translateX := translationX,
           translateY := translationY * 0.3,
           rotation := interpolate3 translationX (- W, 0, W) (- 30, 0, 30) EXTEND,
           scale := interpolate2 progress (0, 1) (1, 0.95) EXTEND,
           backgroundScale := interpolate2 progress (0, 1) (0.95, 1) EXTEND\<rparr>)"

definition onEnd :: "real \<Rightarrow> real \<Rightarrow> real \<Rightarrow> real \<Rightarrow> int \<Rightarrow> SwipeDeck \<Rightarrow> SwipeDeck" where
  "onEnd W translationX translationY velocityX now s =
     (let shouldSwipe = \<bar>translationX\<bar> > SWIPE_THRESHOLD W
      in if shouldSwipe then
           (let dir = (if translationX > 0 then right else left);
                targetX = (if dir = right then W * 1.5 else - W * 1.5)
            in handleSwipeComplete dir velocityX now
                 (s\<lparr>translateX := targetX,
                    translateY := translationY * 2,
                    rotation := (if dir = right then 45 else - 45),
                    scale := 0.8,
                    backgroundScale := 1\<rparr>))
         else s\<lparr>translateX := 0,
                 translateY := 0,
                 rotation := 0,
                 scale := 1,
                 backgroundScale := 0.95\<rparr>)"

subsection \<open>Prefetching and asking for more images\<close>

text \<open>\<open>Array.prototype.slice\<close> with both arguments given: a negative argument counts
  from the end, and both are cut to the array.\<close>

definition slice :: "'a list \<Rightarrow> int \<Rightarrow> int \<Rightarrow> 'a list" where
  "slice xs start fin =
     (let len = int (length xs);
          k = (if start < 0 then max (len + start) 0 else min start len);
          final = (if fin < 0 then max (len + fin) 0 else min fin len)
      in take (nat (final - k)) (drop (nat k) xs))"

text \<open>\<open>Array.prototype.sort\<close> with a comparator: a stable sort, \<open>a\<close> before \<open>b\<close> when
  the comparator is negative. Insertion from the right keeps equal elements in their
  order.\<close>

fun insert_by :: "('a \<Rightarrow> 'a \<Rightarrow> int) \<Rightarrow> 'a \<Rightarrow> 'a list \<Rightarrow> 'a list" where
  "insert_by cmp x [] = [x]"
| "insert_by cmp x (y # ys) =
     (if cmp x y \<le> 0 then x # y # ys else y # insert_by cmp x ys)"

definition sort_by :: "('a \<Rightarrow> 'a \<Rightarrow> int) \<Rightarrow> 'a list \<Rightarrow> 'a list" where
  "sort_by cmp xs = foldr (insert_by cmp) xs []"

fun tierPriority :: "Tier \<Rightarrow> int" where
  "tierPriority personal = 3"
| "tierPriority demographic = 2"
| "tierPriority universal = 1"

text \<open>\<open>images.slice (start, end)\<close> of line 75, and the sorted array built from it.\<close>

definition prefetchWindow :: "int \<Rightarrow> SwipeDeck \<Rightarrow> ImageData list" where
  "prefetchWindow prefetchBuffer s =
     (let start = max 0 (int (currentIndex s));
          fin = min (int (length (images s))) (int (currentIndex s) + prefetchBuffer)
      in slice (images s) start fin)"

definition imagesToPrefetch :: "int \<Rightarrow> SwipeDeck \<Rightarrow> ImageData list" where
  "imagesToPrefetch prefetchBuffer s =
     sort_by (\<lambda>a b. tierPriority (tier b) - tierPriority (tier a))
       (prefetchWindow prefetchBuffer s)"

text \<open>Every element of \<open>imagesToPrefetch\<close> gets one \<open>Image.prefetch (img.url)\<close>, in the
  order of the array: the body of each async callback runs up to its first \<open>await\<close>
  while \<open>map\<close> visits the element. A failed prefetch is caught and logged.\<close>

definition aggressivePrefetch :: "int \<Rightarrow> SwipeDeck \<Rightarrow> SwipeDeck" where
  "aggressivePrefetch prefetchBuffer s =
     s\<lparr>prefetch_calls := prefetch_calls s @ map url (imagesToPrefetch prefetchBuffer s)\<rparr>"

text \<open>The body of the effect of lines 98 to 102.\<close>

definition needMoreEffect :: "SwipeDeck \<Rightarrow> SwipeDeck" where
  "needMoreEffect s =
     (if int (length (images s)) - int (currentIndex s) \<le> 10
      then s\<lparr>onNeedMoreImages_calls := onNeedMoreImages_calls s + 1\<rparr>
      else s)"

text \<open>
  React runs an effect after the first render and after every render in which one of
  its dependencies changed. The prefetch effect depends on \<open>currentIndex\<close>, \<open>images\<close>
  and \<open>prefetchBuffer\<close>, the other one on \<open>currentIndex\<close>, \<open>images.length\<close> and
  \<open>onNeedMoreImages\<close>; the callback and \<open>prefetchBuffer\<close> are taken to stay the same.
  \<open>runEffects\<close> gets the component before the event (\<open>old\<close>), whether the parent
  handed over a new \<open>images\<close> array, and the component after the event.
\<close>

definition runEffects :: "int \<Rightarrow> SwipeDeck \<Rightarrow> bool \<Rightarrow> SwipeDeck \<Rightarrow> SwipeDeck" where
  "runEffects prefetchBuffer old newArray s =
     (let s1 = (if currentIndex s \<noteq> currentIndex old \<or> newArray
                then aggressivePrefetch prefetchBuffer s else s)
      in if currentIndex s1 \<noteq> currentIndex old \<or> length (images s1) \<noteq> length (images old)
         then needMoreEffect s1 else s1)"

definition mount :: "int \<Rightarrow> ImageData list \<Rightarrow> SwipeDeck" where
  "mount prefetchBuffer imgs =
     needMoreEffect (aggressivePrefetch prefetchBuffer (initialDeck imgs))"

text \<open>What can happen to a mounted deck: the three gesture callbacks, and the parent
  passing a new \<open>images\<close> array.\<close>

datatype Event =
    GestureBegin int
  | GestureUpdate real real
  | GestureEnd real real real int
  | NewImages "ImageData list"

fun step :: "real \<Rightarrow> int \<Rightarrow> SwipeDeck \<Rightarrow> Event \<Rightarrow> SwipeDeck" where
  "step W prefetchBuffer s (GestureBegin now) = onBegin now s"
| "step W prefetchBuffer s (GestureUpdate translationX translationY) =
     onUpdate W translationX translationY s"
| "step W prefetchBuffer s (GestureEnd translationX translationY velocityX now) =
     runEffects prefetchBuffer s False (onEnd W translationX translationY velocityX now s)"
| "step W prefetchBuffer s (NewImages imgs) =
     runEffects prefetchBuffer s True (s\<lparr>images := imgs\<rparr>)"

definition run :: "real \<Rightarrow> int \<Rightarrow> SwipeDeck \<Rightarrow> Event list \<Rightarrow> SwipeDeck" where
  "run W prefetchBuffer s evs = foldl (step W prefetchBuffer) s evs"

subsection \<open>The basic decks\<close>

text \<open>
  \<open>SwipeDeck\<close> and \<open>SafeSwipeDeck\<close> of \<^verbatim>\<open>rapid-studio-clean/components/SwipeDeck.tsx\<close>.
  Their state and animation values carry the names of the enhanced deck, so the fields
  get the suffix \<open>B\<close> (basic) or \<open>S\<close> (safe). Neither builds a rating: a committed swipe
  is written to the console, here the log \<open>swipeLog\<close>, with the direction, the id of
  \<open>images[currentIndex]\<close> (\<open>undefined\<close> when there is none) and the rating word.
  \<open>Alert.alert\<close> calls are counted. The \<open>isLoading\<close> flag of the basic deck only picks
  what is rendered and is left out.
\<close>

record SampleImage =
  sample_id :: string
  sample_url :: string
  title :: string

definition sampleImages :: "SampleImage list" where
  "sampleImages =
     [\<lparr>sample_id = ''1'', sample_url = ''https://picsum.photos/400/600?random=1'',
       title = ''Sample Image 1''\<rparr>,
      \<lparr>sample_id = ''2'', sample_url = ''https://picsum.photos/400/600?random=2'',
       title = ''Sample Image 2''\<rparr>,
      \<lparr>sample_id = ''3'', sample_url = ''https://picsum.photos/400/600?random=3'',
       title = ''Sample Image 3''\<rparr>,
      \<lparr>sample_id = ''4'', sample_url = ''https://picsum.photos/400/600?random=4'',
       title = ''Sample Image 4''\<rparr>,
      \<lparr>sample_id = ''5'', sample_url = ''https://picsum.photos/400/600?random=5'',
       title = ''Sample Image 5''\<rparr>]"

record SwipeLog =
  logDirection :: Direction
  logImage :: "string option"
  logRating :: string

definition swipeLog :: "Direction \<Rightarrow> SampleImage list \<Rightarrow> nat \<Rightarrow> SwipeLog" where
  "swipeLog dir imgs i =
     \<lparr>logDirection = dir,
      logImage = map_option sample_id (at_index imgs i),
      logRating = (if dir = right then ''like'' else ''dislike'')\<rparr>"

record BasicDeck =
  imagesB :: "SampleImage list"
  currentIndexB :: nat
  translateXB :: real
  translateYB :: real
  rotateB :: real
  scaleB :: real
  consoleB :: "SwipeLog list"
  alertsB :: nat

definition loadSampleImages :: "BasicDeck \<Rightarrow> BasicDeck" where
  "loadSampleImages s = s\<lparr>imagesB := sampleImages\<rparr>"

text \<open>Lines 90 to 109.\<close>

definition onSwipeComplete :: "Direction \<Rightarrow> BasicDeck \<Rightarrow> BasicDeck" where
  "onSwipeComplete dir s =
     (let s1 = s\<lparr>consoleB := consoleB s @ [swipeLog dir (imagesB s) (currentIndexB s)]\<rparr>;
          s2 = (if int (currentIndexB s) < int (length (imagesB s)) - 1
                then s1\<lparr>currentIndexB := currentIndexB s + 1\<rparr>
                else (loadSampleImages (s1\<lparr>alertsB := alertsB s1 + 1\<rparr>))
                       \<lparr>currentIndexB := 0\<rparr>)
      in s2\<lparr>translateXB := 0, translateYB := 0, rotateB := 0, scaleB := 1\<rparr>)"

text \<open>
  \<open>onStart\<close>, \<open>onActive\<close> and \<open>onEnd\<close> of \<open>gestureHandler\<close> (lines 111 to 147).

  Both basic decks compare the displacement with \<open>screenWidth * 0.3\<close>. The code forms
  this product in IEEE doubles, where \<open>0.3\<close> has no exact value, so the result is a
  rounded number that need not be the real product: on a screen 428 wide it is the double
  nearest to 128.4, which lies above the real 128.4. The release handlers therefore take the threshold as the argument
  \<open>swipeThreshold\<close>, the number the expression \<open>screenWidth * 0.3\<close> has when the code runs,
  and compare with it as the code does. (The enhanced deck's \<open>SCREEN_WIDTH * 0.25\<close> is a
  product with a power of two and is exact.)
\<close>

definition onStart :: "BasicDeck \<Rightarrow> BasicDeck" where
  "onStart s = s\<lparr>scaleB := 0.95\<rparr>"

definition onActive :: "real \<Rightarrow> real \<Rightarrow> real \<Rightarrow> BasicDeck \<Rightarrow> BasicDeck" where
  "onActive screenWidth translationX translationY s =
     s\<lparr>translateXB := translationX,
       translateYB := translationY,
       rotateB := interpolate2 translationX (- screenWidth, screenWidth) (- 30, 30) CLAMP\<rparr>"

definition onEndB :: "real \<Rightarrow> real \<Rightarrow> real \<Rightarrow> real \<Rightarrow> BasicDeck \<Rightarrow> BasicDeck" where
  "onEndB screenWidth swipeThreshold translationX translationY s =
     (let shouldSwipe = \<bar>translationX\<bar> > swipeThreshold
      in if shouldSwipe then
           (let dir = (if translationX > 0 then right else left)
            in onSwipeComplete dir
                 (s\<lparr>translateXB :=
                       (if translationX > 0 then screenWidth * 1.5 else - screenWidth * 1.5),
                    translateYB := translationY,
                    scaleB := 0.8\<rparr>))
         else s\<lparr>translateXB := 0, translateYB := 0, rotateB := 0, scaleB := 1\<rparr>)"

text \<open>\<open>SafeSwipeDeck\<close> never replaces its five images. Of its pan responder only the
  release (lines 371 to 424) touches the index; the index moves in the callback that
  runs when the fly-out animation has ended, which also puts \<open>pan\<close> and \<open>scale\<close> back.\<close>

record SafeDeck =
  currentIndexS :: nat
  panX :: real
  panY :: real
  scaleS :: real
  consoleS :: "SwipeLog list"
  alertsS :: nat

definition onPanResponderRelease ::
  "real \<Rightarrow> real \<Rightarrow> real \<Rightarrow> real \<Rightarrow> SafeDeck \<Rightarrow> SafeDeck" where
  "onPanResponderRelease screenWidth swipeThreshold dx dy s =
     (let shouldSwipe = \<bar>dx\<bar> > swipeThreshold
      in if shouldSwipe then
           (let dir = (if dx > 0 then right else left);
                s1 = s\<lparr>consoleS := consoleS s @ [swipeLog dir sampleImages (currentIndexS s)],
                       panX := (if dir = right then screenWidth * 1.5 else - screenWidth * 1.5),
                       panY := dy,
                       scaleS := 0.8\<rparr>;
                s2 = (if int (currentIndexS s) < int (length sampleImages) - 1
                      then s1\<lparr>currentIndexS := currentIndexS s + 1\<rparr>
                      else s1\<lparr>alertsS := alertsS s1 + 1, currentIndexS := 0\<rparr>)
            in s2\<lparr>panX := 0, panY := 0, scaleS := 1\<rparr>)
         else s\<lparr>panX := 0, panY := 0, scaleS := 1\<rparr>)"

definition lastCardB :: BasicDeck where
  "lastCardB =
     \<lparr>imagesB = sampleImages, currentIndexB = 4, translateXB = 0, translateYB = 0,
      rotateB = 0, scaleB = 1, consoleB = [], alertsB = 0\<rparr>"

definition lastCardS :: SafeDeck where
  "lastCardS =
     \<lparr>currentIndexS = 4, panX = 0, panY = 0, scaleS = 1, consoleS = [], alertsS = 0\<rparr>"

subsection \<open>Example decks\<close>

definition exampleImage :: ImageData where
  "exampleImage = \<lparr>img_id = ''a'', url = ''u/a'', tier = universal\<rparr>"

definition oneCardDeck :: SwipeDeck where
  "oneCardDeck = initialDeck [exampleImage]"

definition card :: "string \<Rightarrow> Tier \<Rightarrow> ImageData" where
  "card n t = \<lparr>img_id = n, url = ''u/'' @ n, tier = t\<rparr>"

definition tenCards :: "ImageData list" where
  "tenCards =
     [card ''0'' universal, card ''1'' universal, card ''2'' universal, card ''3'' universal,
      card ''4'' universal, card ''5'' universal, card ''6'' universal, card ''7'' universal,
      card ''8'' universal, card ''9'' universal]"

definition commitAt :: "int \<Rightarrow> Event" where
  "commitAt now = GestureEnd 150 0 900 now"

definition almostFullDeck :: SwipeDeck where
  "almostFullDeck =
     (initialDeck [exampleImage])
       \<lparr>ratingBatch := replicate 9 (swipeRating exampleImage left 100 1 1)\<rparr>"

definition mixedCards :: "ImageData list" where
  "mixedCards = [card ''0'' universal, card ''1'' personal, card ''2'' demographic,
                 card ''3'' personal]"

definition twelveCards :: "ImageData list" where
  "twelveCards = tenCards @ [card ''10'' universal, card ''11'' universal]"

subsection \<open>Vocabulary of the statements\<close>

text \<open>A release that passes the threshold test of \<open>onEnd\<close>.\<close>

fun committing :: "real \<Rightarrow> Event \<Rightarrow> bool" where
  "committing W (GestureEnd tx ty vx now) = (\<bar>tx\<bar> > SWIPE_THRESHOLD W)"
| "committing W _ = False"

text \<open>The comparator of line 78, and the order it sorts into.\<close>

abbreviation tier_cmp :: "ImageData \<Rightarrow> ImageData \<Rightarrow> int" where
  "tier_cmp a b \<equiv> tierPriority (tier b) - tierPriority (tier a)"

abbreviation tier_order :: "ImageData \<Rightarrow> ImageData \<Rightarrow> bool" where
  "tier_order a b \<equiv> tierPriority (tier b) \<le> tierPriority (tier a)"

subsection \<open>Basic facts\<close>

lemma at_index_Some: "i < length xs \<Longrightarrow> at_index xs i = Some (xs ! i)"
  by (simp add: at_index_def)

lemma at_index_None: "length xs \<le> i \<Longrightarrow> at_index xs i = None"
  by (simp add: at_index_def)

lemma updater_fst:
  "fst (setRatingBatch_updater prev r) = (if length prev + 1 \<ge> 10 then [] else prev @ [r])"
  by (simp add: setRatingBatch_updater_def Let_def)

lemma updater_snd:
  "snd (setRatingBatch_updater prev r) = (if length prev + 1 \<ge> 10 then [r] else [])"
  by (simp add: setRatingBatch_updater_def Let_def)

lemma handleSwipeComplete_missing:
  "length (images s) \<le> currentIndex s \<Longrightarrow> handleSwipeComplete dir v now s = s"
  by (simp add: handleSwipeComplete_def at_index_None)

lemma handleSwipeComplete_batch:
  "currentIndex s < length (images s) \<Longrightarrow>
   ratingBatch (handleSwipeComplete dir v now s) =
     fst (setRatingBatch_updater (ratingBatch s)
       (swipeRating (images s ! currentIndex s) dir v now (now - swipeStartTime s)))"
  by (simp add: handleSwipeComplete_def at_index_Some Let_def)

lemma handleSwipeComplete_calls:
  "currentIndex s < length (images s) \<Longrightarrow>
   onSwipe_calls (handleSwipeComplete dir v now s) =
     onSwipe_calls s @ snd (setRatingBatch_updater (ratingBatch s)
       (swipeRating (images s ! currentIndex s) dir v now (now - swipeStartTime s)))"
  by (simp add: handleSwipeComplete_def at_index_Some Let_def)

lemma handleSwipeComplete_index:
  "currentIndex (handleSwipeComplete dir v now s) =
     (if currentIndex s < length (images s) then currentIndex s + 1 else currentIndex s)"
  by (simp add: handleSwipeComplete_def at_index_def Let_def)

lemma handleSwipeComplete_images:
  "images (handleSwipeComplete dir v now s) = images s"
  by (simp add: handleSwipeComplete_def at_index_def Let_def)

lemma handleSwipeComplete_totalSwipes:
  "totalSwipes (handleSwipeComplete dir v now s) =
     (if currentIndex s < length (images s) then totalSwipes s + 1 else totalSwipes s)"
  by (simp add: handleSwipeComplete_def at_index_def Let_def)

lemma onEnd_commit:
  "\<bar>tx\<bar> > SWIPE_THRESHOLD W \<Longrightarrow>
   onEnd W tx ty vx now s =
     handleSwipeComplete (if tx > 0 then right else left) vx now
       (s\<lparr>translateX := (if tx > 0 then W * 1.5 else - W * 1.5),
          translateY := ty * 2,
          rotation := (if tx > 0 then 45 else - 45),
          scale := 0.8,
          backgroundScale := 1\<rparr>)"
  by (simp add: onEnd_def Let_def)

lemma onEnd_snap_back:
  "\<not> \<bar>tx\<bar> > SWIPE_THRESHOLD W \<Longrightarrow>
   onEnd W tx ty vx now s =
     s\<lparr>translateX := 0, translateY := 0, rotation := 0, scale := 1, backgroundScale := 0.95\<rparr>"
  by (simp add: onEnd_def Let_def)

lemma onEnd_batch:
  "\<bar>tx\<bar> > SWIPE_THRESHOLD W \<Longrightarrow> currentIndex s < length (images s) \<Longrightarrow>
   ratingBatch (onEnd W tx ty vx now s) =
     fst (setRatingBatch_updater (ratingBatch s)
       (swipeRating (images s ! currentIndex s) (if tx > 0 then right else left) vx now
          (now - swipeStartTime s)))"
  by (simp add: onEnd_commit handleSwipeComplete_batch)

lemma onEnd_calls:
  "\<bar>tx\<bar> > SWIPE_THRESHOLD W \<Longrightarrow> currentIndex s < length (images s) \<Longrightarrow>
   onSwipe_calls (onEnd W tx ty vx now s) =
     onSwipe_calls s @ snd (setRatingBatch_updater (ratingBatch s)
       (swipeRating (images s ! currentIndex s) (if tx > 0 then right else left) vx now
          (now - swipeStartTime s)))"
  by (simp add: onEnd_commit handleSwipeComplete_calls)

lemma onEnd_index:
  "currentIndex (onEnd W tx ty vx now s) =
     (if \<bar>tx\<bar> > SWIPE_THRESHOLD W \<and> currentIndex s < length (images s)
      then currentIndex s + 1 else currentIndex s)"
  by (simp add: onEnd_def Let_def handleSwipeComplete_index)

lemma onEnd_totalSwipes:
  "totalSwipes (onEnd W tx ty vx now s) =
     (if \<bar>tx\<bar> > SWIPE_THRESHOLD W \<and> currentIndex s < length (images s)
      then totalSwipes s + 1 else totalSwipes s)"
  by (simp add: onEnd_def Let_def handleSwipeComplete_totalSwipes)

lemma onEnd_images: "images (onEnd W tx ty vx now s) = images s"
  by (simp add: onEnd_def Let_def handleSwipeComplete_images)

lemma confidence_bounds:
  "0 \<le> confidence (swipeRating img dir v t h) \<and> confidence (swipeRating img dir v t h) \<le> 1"
  by (simp add: swipeRating_def)

lemma oneCardDeck_has_card: "currentIndex oneCardDeck < length (images oneCardDeck)"
  by (simp add: oneCardDeck_def initialDeck_def)

lemma threshold_400: "SWIPE_THRESHOLD 400 = 100"
  by (simp add: SWIPE_THRESHOLD_def)

lemma aggressivePrefetch_fields:
  "currentIndex (aggressivePrefetch N s) = currentIndex s"
  "images (aggressivePrefetch N s) = images s"
  "ratingBatch (aggressivePrefetch N s) = ratingBatch s"
  "onSwipe_calls (aggressivePrefetch N s) = onSwipe_calls s"
  "onNeedMoreImages_calls (aggressivePrefetch N s) = onNeedMoreImages_calls s"
  by (simp_all add: aggressivePrefetch_def)

lemma needMoreEffect_fields:
  "currentIndex (needMoreEffect s) = currentIndex s"
  "images (needMoreEffect s) = images s"
  "ratingBatch (needMoreEffect s) = ratingBatch s"
  "onSwipe_calls (needMoreEffect s) = onSwipe_calls s"
  "prefetch_calls (needMoreEffect s) = prefetch_calls s"
  by (simp_all add: needMoreEffect_def)

lemma needMoreEffect_calls:
  "onNeedMoreImages_calls (needMoreEffect s) =
     onNeedMoreImages_calls s +
       (if int (length (images s)) - int (currentIndex s) \<le> 10 then 1 else 0)"
  by (simp add: needMoreEffect_def)

lemma runEffects_fields:
  "currentIndex (runEffects N old b s) = currentIndex s"
  "images (runEffects N old b s) = images s"
  "ratingBatch (runEffects N old b s) = ratingBatch s"
  "onSwipe_calls (runEffects N old b s) = onSwipe_calls s"
  by (simp_all add: runEffects_def Let_def aggressivePrefetch_fields needMoreEffect_fields)

lemma runEffects_calls:
  "onNeedMoreImages_calls (runEffects N old b s) =
     onNeedMoreImages_calls s +
       (if (currentIndex s \<noteq> currentIndex old \<or> length (images s) \<noteq> length (images old)) \<and>
           int (length (images s)) - int (currentIndex s) \<le> 10 then 1 else 0)"
  by (simp add: runEffects_def Let_def aggressivePrefetch_fields needMoreEffect_calls)

lemma onEnd_needMore: "onNeedMoreImages_calls (onEnd W tx ty vx now s) = onNeedMoreImages_calls s"
  by (simp add: onEnd_def Let_def handleSwipeComplete_def at_index_def)

lemma step_index:
  "currentIndex (step W N s e) =
     (case e of
        GestureEnd tx ty vx now \<Rightarrow>
          (if \<bar>tx\<bar> > SWIPE_THRESHOLD W \<and> currentIndex s < length (images s)
           then currentIndex s + 1 else currentIndex s)
      | _ \<Rightarrow> currentIndex s)"
  by (cases e)
     (simp_all add: onBegin_def handleSwipeStart_def onUpdate_def Let_def runEffects_fields
        onEnd_index)

lemma step_images:
  "images (step W N s e) = (case e of NewImages imgs \<Rightarrow> imgs | _ \<Rightarrow> images s)"
  by (cases e)
     (simp_all add: onBegin_def handleSwipeStart_def onUpdate_def Let_def runEffects_fields
        onEnd_images)

lemma step_index_mono: "currentIndex s \<le> currentIndex (step W N s e)"
  by (simp add: step_index split: Event.split)

lemma run_index_mono: "currentIndex s \<le> currentIndex (run W N s evs)"
proof (induction evs arbitrary: s)
  case Nil
  show ?case by (simp add: run_def)
next
  case (Cons e evs)
  have "currentIndex s \<le> currentIndex (step W N s e)"
    by (rule step_index_mono)
  also have "\<dots> \<le> currentIndex (run W N (step W N s e) evs)"
    by (rule Cons.IH)
  finally show ?case by (simp add: run_def)
qed

lemma length_sampleImages: "length sampleImages = 5"
  by (simp add: sampleImages_def)

lemma onSwipeComplete_index:
  "currentIndexB (onSwipeComplete dir s) =
     (if currentIndexB s + 1 < length (imagesB s) then currentIndexB s + 1 else 0)"
  by (auto simp add: onSwipeComplete_def Let_def loadSampleImages_def)

lemma onEndB_index:
  "currentIndexB (onEndB sw th tx ty s) =
     (if \<bar>tx\<bar> > th
      then (if currentIndexB s + 1 < length (imagesB s) then currentIndexB s + 1 else 0)
      else currentIndexB s)"
  by (simp add: onEndB_def Let_def onSwipeComplete_index)

lemma onPanResponderRelease_index:
  "currentIndexS (onPanResponderRelease sw th dx dy s) =
     (if \<bar>dx\<bar> > th
      then (if currentIndexS s + 1 < 5 then currentIndexS s + 1 else 0)
      else currentIndexS s)"
  by (auto simp add: onPanResponderRelease_def Let_def length_sampleImages)

lemma step_needMore:
  "onNeedMoreImages_calls (step W N s (GestureEnd tx ty vx now)) =
     onNeedMoreImages_calls s +
       (if \<bar>tx\<bar> > SWIPE_THRESHOLD W \<and> currentIndex s < length (images s) \<and>
           int (length (images s)) - int (currentIndex s + 1) \<le> 10 then 1 else 0)"
  by (simp add: runEffects_calls onEnd_needMore onEnd_index onEnd_images)

lemma step_needMore_images:
  "onNeedMoreImages_calls (step W N s (NewImages imgs)) =
     onNeedMoreImages_calls s +
       (if length imgs \<noteq> length (images s) \<and>
           int (length imgs) - int (currentIndex s) \<le> 10 then 1 else 0)"
  by (simp add: runEffects_calls)

lemma step_needMore_other:
  "onNeedMoreImages_calls (step W N s (GestureBegin now)) = onNeedMoreImages_calls s"
  "onNeedMoreImages_calls (step W N s (GestureUpdate tx ty)) = onNeedMoreImages_calls s"
  by (simp_all add: onBegin_def handleSwipeStart_def onUpdate_def Let_def)

lemma mount_fields:
  "images (mount N imgs) = imgs"
  "currentIndex (mount N imgs) = 0"
  "onNeedMoreImages_calls (mount N imgs) = (if length imgs \<le> 10 then 1 else 0)"
  by (simp_all add: mount_def needMoreEffect_fields needMoreEffect_calls aggressivePrefetch_fields
        initialDeck_def)


lemma committing_step:
  assumes "committing W e" and "currentIndex s < length (images s)"
  shows "currentIndex (step W N s e) = currentIndex s + 1"
    and "images (step W N s e) = images s"
    and "onNeedMoreImages_calls (step W N s e) =
           onNeedMoreImages_calls s +
             (if length (images s) - currentIndex s \<le> 11 then 1 else 0)"
proof -
  from assms(1) obtain tx ty vx now where e: "e = GestureEnd tx ty vx now"
    and c: "\<bar>tx\<bar> > SWIPE_THRESHOLD W"
    by (cases e) simp_all
  show "currentIndex (step W N s e) = currentIndex s + 1"
    using c assms(2) by (simp add: e step_index del: step.simps)
  show "images (step W N s e) = images s"
    by (simp add: e step_images del: step.simps)
  show "onNeedMoreImages_calls (step W N s e) =
           onNeedMoreImages_calls s +
             (if length (images s) - currentIndex s \<le> 11 then 1 else 0)"
    using c assms(2) unfolding e step_needMore by auto
qed

lemma commits_needMore:
  "list_all (committing W) evs \<Longrightarrow>
   currentIndex s + length evs \<le> length (images s) \<Longrightarrow>
   onNeedMoreImages_calls (run W N s evs) =
     onNeedMoreImages_calls s + (length evs - (length (images s) - currentIndex s - 11))"
proof (induction evs arbitrary: s)
  case Nil
  then show ?case by (simp add: run_def)
next
  case (Cons e evs)
  from Cons.prems have c: "committing W e" and cs: "list_all (committing W) evs"
    and lt: "currentIndex s < length (images s)"
    by simp_all
  let ?s = "step W N s e"
  note st = committing_step [OF c lt, of N]
  have "currentIndex ?s + length evs \<le> length (images ?s)"
    using Cons.prems(2) by (simp add: st)
  from Cons.IH [OF cs this]
  have "onNeedMoreImages_calls (run W N ?s evs) =
          onNeedMoreImages_calls ?s + (length evs - (length (images ?s) - currentIndex ?s - 11))" .
  moreover have "run W N s (e # evs) = run W N ?s evs"
    by (simp add: run_def)
  ultimately show ?case
    using Cons.prems(2) by (auto simp add: st)
qed

lemma slice_window:
  "0 \<le> N \<Longrightarrow>
   slice xs (int i) (min (int (length xs)) (int i + N)) = take (nat N) (drop i xs)"
  by (auto simp add: slice_def Let_def min_def max_def nat_diff_distrib nat_add_distrib)

lemma mset_insert_by: "mset (insert_by cmp x xs) = add_mset x (mset xs)"
  by (induction xs) simp_all

lemma mset_sort_by: "mset (sort_by cmp xs) = mset xs"
  by (induction xs) (simp_all add: sort_by_def mset_insert_by)

lemma set_insert_by: "set (insert_by cmp x xs) = insert x (set xs)"
  by (induction xs) auto

lemma sorted_insert_by:
  "sorted_wrt tier_order xs \<Longrightarrow> sorted_wrt tier_order (insert_by tier_cmp x xs)"
  by (induction xs) (auto simp add: set_insert_by)

lemma sorted_sort_by: "sorted_wrt tier_order (sort_by tier_cmp xs)"
  by (induction xs) (simp_all add: sort_by_def sorted_insert_by)

lemma take_drop_positions:
  "take n (drop i xs) = map ((!) xs) [i ..< min (length xs) (i + n)]"
proof (rule nth_equalityI)
  show "length (take n (drop i xs)) = length (map ((!) xs) [i ..< min (length xs) (i + n)])"
    by simp
next
  fix k
  assume "k < length (take n (drop i xs))"
  then have "k < n" and "i + k < length xs"
    by auto
  then show "take n (drop i xs) ! k = map ((!) xs) [i ..< min (length xs) (i + n)] ! k"
    by simp
qed

lemma imagesToPrefetch_window:
  "0 \<le> N \<Longrightarrow>
   mset (imagesToPrefetch N s) =
     mset (map ((!) (images s)) [currentIndex s ..< min (length (images s)) (currentIndex s + nat N)])"
  by (simp add: imagesToPrefetch_def prefetchWindow_def Let_def slice_window mset_sort_by
        take_drop_positions del: mset_map)

lemma rotation_onUpdate:
  "0 < W \<Longrightarrow> rotation (onUpdate W dx dy s) = 30 * dx / W"
  by (simp add: onUpdate_def Let_def interpolate3_def internalInterpolate_def getVal_def
        field_simps)

lemma rotate_onActive:
  "0 < W \<Longrightarrow> rotateB (onActive W dx dy s) =
     (if dx < - W then - 30 else if dx > W then 30 else 30 * dx / W)"
  by (simp add: onActive_def interpolate2_def internalInterpolate_def getVal_def Let_def
        field_simps)

lemma insert_by_front:
  "(\<And>y ys. zs = y # ys \<Longrightarrow> cmp x y \<le> 0) \<Longrightarrow> insert_by cmp x zs = x # zs"
  by (cases zs) simp_all

lemma insert_by_skip:
  "\<forall>y \<in> set ys. cmp x y > 0 \<Longrightarrow> insert_by cmp x (ys @ zs) = ys @ insert_by cmp x zs"
  by (induction ys) auto

lemma sort_by_tiers:
  "sort_by tier_cmp xs =
     filter (\<lambda>i. tier i = personal) xs @ filter (\<lambda>i. tier i = demographic) xs @
     filter (\<lambda>i. tier i = universal) xs"
proof (induction xs)
  case Nil
  show ?case by (simp add: sort_by_def)
next
  case (Cons x xs)
  let ?P = "filter (\<lambda>i. tier i = personal) xs"
  let ?D = "filter (\<lambda>i. tier i = demographic) xs"
  let ?U = "filter (\<lambda>i. tier i = universal) xs"
  have step: "sort_by tier_cmp (x # xs) = insert_by tier_cmp x (?P @ ?D @ ?U)"
    using Cons.IH by (simp add: sort_by_def)
  have prio: "\<And>t. tierPriority t \<le> 3 \<and> 1 \<le> tierPriority t"
    subgoal for t by (cases t) simp_all
    done
  show ?case
  proof (cases "tier x")
    case personal
    have "insert_by tier_cmp x (?P @ ?D @ ?U) = x # ?P @ ?D @ ?U"
      by (rule insert_by_front) (use personal prio in simp)
    then show ?thesis using personal step by simp
  next
    case demographic
    have "insert_by tier_cmp x (?P @ ?D @ ?U) = ?P @ insert_by tier_cmp x (?D @ ?U)"
      by (rule insert_by_skip) (use demographic in simp)
    also have "insert_by tier_cmp x (?D @ ?U) = x # ?D @ ?U"
    proof (rule insert_by_front)
      fix y ys assume "?D @ ?U = y # ys"
      then have "y \<in> set (?D @ ?U)" by simp
      then have "tier y = demographic \<or> tier y = universal" by auto
      then show "tier_cmp x y \<le> 0" using demographic by auto
    qed
    finally show ?thesis using demographic step by simp
  next
    case universal
    have "insert_by tier_cmp x (?P @ ?D @ ?U) = ?P @ insert_by tier_cmp x (?D @ ?U)"
      by (rule insert_by_skip) (use universal in simp)
    also have "insert_by tier_cmp x (?D @ ?U) = ?D @ insert_by tier_cmp x ?U"
      by (rule insert_by_skip) (use universal in simp)
    also have "insert_by tier_cmp x ?U = x # ?U"
    proof (rule insert_by_front)
      fix y ys assume "?U = y # ys"
      then have "y \<in> set ?U" by simp
      then have "tier y = universal" by simp
      then show "tier_cmp x y \<le> 0" using universal by simp
    qed
    finally show ?thesis using universal step by simp
  qed
qed

lemma run_append: "run W N s (evs @ [e]) = step W N (run W N s evs) e"
  by (simp add: run_def)

lemma step_start_commit:
  "swipeStartTime (step W N s (GestureEnd tx ty vx now)) = swipeStartTime s"
  by (simp add: runEffects_def Let_def aggressivePrefetch_def needMoreEffect_def onEnd_def
        handleSwipeComplete_def at_index_def)

lemma step_batch:
  "\<bar>tx\<bar> > SWIPE_THRESHOLD W \<Longrightarrow> currentIndex s < length (images s) \<Longrightarrow>
   ratingBatch (step W N s (GestureEnd tx ty vx now)) =
     fst (setRatingBatch_updater (ratingBatch s)
       (swipeRating (images s ! currentIndex s) (if tx > 0 then right else left) vx now
          (now - swipeStartTime s)))"
  by (simp add: runEffects_fields onEnd_batch)

lemma step_calls:
  "\<bar>tx\<bar> > SWIPE_THRESHOLD W \<Longrightarrow> currentIndex s < length (images s) \<Longrightarrow>
   onSwipe_calls (step W N s (GestureEnd tx ty vx now)) =
     onSwipe_calls s @ snd (setRatingBatch_updater (ratingBatch s)
       (swipeRating (images s ! currentIndex s) (if tx > 0 then right else left) vx now
          (now - swipeStartTime s)))"
  by (simp add: runEffects_fields onEnd_calls)

lemma commits_accumulate:
  "list_all (committing W) evs \<Longrightarrow>
   currentIndex s + length evs \<le> length (images s) \<Longrightarrow>
   length (ratingBatch s) + length evs < 10 \<Longrightarrow>
   onSwipe_calls (run W N s evs) = onSwipe_calls s \<and>
   length (ratingBatch (run W N s evs)) = length (ratingBatch s) + length evs \<and>
   currentIndex (run W N s evs) = currentIndex s + length evs \<and>
   images (run W N s evs) = images s \<and>
   swipeStartTime (run W N s evs) = swipeStartTime s"
proof (induction evs arbitrary: s)
  case Nil
  show ?case by (simp add: run_def)
next
  case (Cons e evs)
  from Cons.prems have c: "committing W e" and cs: "list_all (committing W) evs"
    and lt: "currentIndex s < length (images s)"
    by simp_all
  from c obtain tx ty vx now where e: "e = GestureEnd tx ty vx now"
    and t: "\<bar>tx\<bar> > SWIPE_THRESHOLD W"
    by (cases e) simp_all
  let ?s = "step W N s e"
  have idx: "currentIndex ?s = currentIndex s + 1" and img: "images ?s = images s"
    using committing_step [OF c lt] by simp_all
  have calls: "onSwipe_calls ?s = onSwipe_calls s"
    and len: "length (ratingBatch ?s) = length (ratingBatch s) + 1"
    using Cons.prems(3) unfolding e step_batch [OF t lt] step_calls [OF t lt]
    by (simp_all add: updater_fst updater_snd)
  have start: "swipeStartTime ?s = swipeStartTime s"
    unfolding e by (rule step_start_commit)
  have "onSwipe_calls (run W N ?s evs) = onSwipe_calls ?s \<and>
   length (ratingBatch (run W N ?s evs)) = length (ratingBatch ?s) + length evs \<and>
   currentIndex (run W N ?s evs) = currentIndex ?s + length evs \<and>
   images (run W N ?s evs) = images ?s \<and>
   swipeStartTime (run W N ?s evs) = swipeStartTime ?s"
    using Cons.prems(2,3) by (intro Cons.IH [OF cs]) (simp_all add: idx img len)
  moreover have "run W N s (e # evs) = run W N ?s evs"
    by (simp add: run_def)
  ultimately show ?case
    by (simp add: idx img len calls start)
qed

lemma tenth_commit_flushes_last:
  assumes "list_all (committing W) evs" and "length evs = 9"
    and "\<bar>tx\<bar> > SWIPE_THRESHOLD W"
    and "ratingBatch s = []"
    and "currentIndex s + 10 \<le> length (images s)"
  shows "onSwipe_calls (run W N s (evs @ [GestureEnd tx ty vx now])) =
           onSwipe_calls s @
             [swipeRating (images s ! (currentIndex s + 9)) (if tx > 0 then right else left)
                vx now (now - swipeStartTime s)] \<and>
         ratingBatch (run W N s (evs @ [GestureEnd tx ty vx now])) = []"
proof -
  let ?s = "run W N s evs"
  have acc: "onSwipe_calls ?s = onSwipe_calls s \<and>
   length (ratingBatch ?s) = length (ratingBatch s) + length evs \<and>
   currentIndex ?s = currentIndex s + length evs \<and>
   images ?s = images s \<and>
   swipeStartTime ?s = swipeStartTime s"
    using assms by (intro commits_accumulate) simp_all
  then have lt: "currentIndex ?s < length (images ?s)"
    using assms(2,5) by simp
  show ?thesis
    unfolding run_append step_batch [OF assms(3) lt] step_calls [OF assms(3) lt]
    using acc assms(2,4) by (simp add: updater_fst updater_snd)
qed


lemma mount_more_fields:
  "ratingBatch (mount N imgs) = []"
  "onSwipe_calls (mount N imgs) = []"
  "swipeStartTime (mount N imgs) = 0"
  by (simp_all add: mount_def needMoreEffect_def aggressivePrefetch_def initialDeck_def)

lemma committing_commitAt: "committing 400 (commitAt now)"
  by (simp add: commitAt_def threshold_400)

lemma onEndB_commit:
  "\<bar>tx\<bar> > th \<Longrightarrow>
   consoleB (onEndB sw th tx ty b) =
     consoleB b @ [swipeLog (if tx > 0 then right else left) (imagesB b) (currentIndexB b)]"
  by (simp add: onEndB_def onSwipeComplete_def Let_def loadSampleImages_def)

lemma onEndB_snap_back:
  "\<bar>tx\<bar> \<le> th \<Longrightarrow>
   onEndB sw th tx ty b = b\<lparr>translateXB := 0, translateYB := 0, rotateB := 0, scaleB := 1\<rparr>"
  by (simp add: onEndB_def Let_def)

lemma onPanResponderRelease_commit:
  "\<bar>dx\<bar> > th \<Longrightarrow>
   consoleS (onPanResponderRelease sw th dx dy c) =
     consoleS c @ [swipeLog (if dx > 0 then right else left) sampleImages (currentIndexS c)]"
  by (simp add: onPanResponderRelease_def Let_def)

lemma onPanResponderRelease_snap_back:
  "\<bar>dx\<bar> \<le> th \<Longrightarrow>
   onPanResponderRelease sw th dx dy c = c\<lparr>panX := 0, panY := 0, scaleS := 1\<rparr>"
  by (simp add: onPanResponderRelease_def Let_def)

lemma logDirection_swipeLog: "logDirection (swipeLog dir imgs i) = dir"
  by (simp add: swipeLog_def)

lemma release_enhanced:
  assumes "currentIndex s < length (images s)"
  shows "(\<bar>tx\<bar> > SWIPE_THRESHOLD W \<longrightarrow>
           (\<exists>r. direction r = (if tx > 0 then right else left) \<and>
                imageId r = img_id (images s ! currentIndex s) \<and>
                totalSwipes (onEnd W tx ty vx now s) = totalSwipes s + 1 \<and>
                currentIndex (onEnd W tx ty vx now s) = currentIndex s + 1 \<and>
                (ratingBatch (onEnd W tx ty vx now s) = ratingBatch s @ [r] \<and>
                   onSwipe_calls (onEnd W tx ty vx now s) = onSwipe_calls s
                 \<or> ratingBatch (onEnd W tx ty vx now s) = [] \<and>
                   onSwipe_calls (onEnd W tx ty vx now s) = onSwipe_calls s @ [r]))) \<and>
         (\<bar>tx\<bar> \<le> SWIPE_THRESHOLD W \<longrightarrow>
            ratingBatch (onEnd W tx ty vx now s) = ratingBatch s \<and>
            onSwipe_calls (onEnd W tx ty vx now s) = onSwipe_calls s \<and>
            totalSwipes (onEnd W tx ty vx now s) = totalSwipes s \<and>
            currentIndex (onEnd W tx ty vx now s) = currentIndex s \<and>
            translateX (onEnd W tx ty vx now s) = 0 \<and>
            translateY (onEnd W tx ty vx now s) = 0 \<and>
            rotation (onEnd W tx ty vx now s) = 0 \<and>
            scale (onEnd W tx ty vx now s) = 1)"
proof (intro conjI impI)
  assume c: "\<bar>tx\<bar> > SWIPE_THRESHOLD W"
  let ?r = "swipeRating (images s ! currentIndex s) (if tx > 0 then right else left) vx now
              (now - swipeStartTime s)"
  have "direction ?r = (if tx > 0 then right else left)"
    and "imageId ?r = img_id (images s ! currentIndex s)"
    by (simp_all add: swipeRating_def)
  moreover have "totalSwipes (onEnd W tx ty vx now s) = totalSwipes s + 1"
    and "currentIndex (onEnd W tx ty vx now s) = currentIndex s + 1"
    using c assms by (simp_all add: onEnd_totalSwipes onEnd_index)
  moreover have "ratingBatch (onEnd W tx ty vx now s) = ratingBatch s @ [?r] \<and>
                   onSwipe_calls (onEnd W tx ty vx now s) = onSwipe_calls s
                 \<or> ratingBatch (onEnd W tx ty vx now s) = [] \<and>
                   onSwipe_calls (onEnd W tx ty vx now s) = onSwipe_calls s @ [?r]"
    using c assms by (simp add: onEnd_batch onEnd_calls updater_fst updater_snd)
  ultimately show "\<exists>r. direction r = (if tx > 0 then right else left) \<and>
                imageId r = img_id (images s ! currentIndex s) \<and>
                totalSwipes (onEnd W tx ty vx now s) = totalSwipes s + 1 \<and>
                currentIndex (onEnd W tx ty vx now s) = currentIndex s + 1 \<and>
                (ratingBatch (onEnd W tx ty vx now s) = ratingBatch s @ [r] \<and>
                   onSwipe_calls (onEnd W tx ty vx now s) = onSwipe_calls s
                 \<or> ratingBatch (onEnd W tx ty vx now s) = [] \<and>
                   onSwipe_calls (onEnd W tx ty vx now s) = onSwipe_calls s @ [r])"
    by blast
qed (simp_all add: onEnd_snap_back)

lemma release_basic:
  "(\<bar>tx\<bar> > th \<longrightarrow>
      (\<exists>l. logDirection l = (if tx > 0 then right else left) \<and>
           consoleB (onEndB sw th tx ty b) = consoleB b @ [l]) \<and>
      (\<exists>l. logDirection l = (if tx > 0 then right else left) \<and>
           consoleS (onPanResponderRelease sw th tx ty c) = consoleS c @ [l])) \<and>
   (\<bar>tx\<bar> \<le> th \<longrightarrow>
      onEndB sw th tx ty b =
        b\<lparr>translateXB := 0, translateYB := 0, rotateB := 0, scaleB := 1\<rparr> \<and>
      onPanResponderRelease sw th tx ty c = c\<lparr>panX := 0, panY := 0, scaleS := 1\<rparr>)"
  using onEndB_commit [where tx = tx and th = th and sw = sw and ty = ty and b = b]
    onPanResponderRelease_commit [where dx = tx and th = th and sw = sw and dy = ty and c = c]
    logDirection_swipeLog
  by (auto simp add: onEndB_snap_back onPanResponderRelease_snap_back)

section \<open>The release of a gesture\<close>

text \<open>
  Claim C2, as the code has it. All three release handlers compare with a strict
  \<open>>\<close>, and the enhanced deck builds a rating only when a card stands at the current
  index. So, with a card at the current index: a release whose \<open>|dx|\<close> is strictly above
  the threshold builds exactly one rating, for the current card and with direction
  \<open>right\<close> for a positive \<open>dx\<close>, \<open>left\<close> otherwise; the swipe counter and the index go up
  by one, and the rating is either appended to the batch or, on the tenth, handed to
  \<open>onSwipe\<close>. A release with \<open>|dx|\<close> at or below the threshold builds none (batch,
  \<open>onSwipe\<close> log, counter and index stay) and sends the card's transform back to the
  identity: translation 0, rotation 0, scale 1. The basic decks, whose threshold \<open>th\<close> is
  the number the code computes for \<open>screenWidth * 0.3\<close>, log one swipe with that
  direction strictly above the threshold; at or below it they log nothing, keep the index
  and go back to the identity as well.
\<close>

theorem release_decision:
  assumes "currentIndex s < length (images s)"
  shows "(\<bar>tx\<bar> > SWIPE_THRESHOLD W \<longrightarrow>
           (\<exists>r. direction r = (if tx > 0 then right else left) \<and>
                imageId r = img_id (images s ! currentIndex s) \<and>
                totalSwipes (onEnd W tx ty vx now s) = totalSwipes s + 1 \<and>
                currentIndex (onEnd W tx ty vx now s) = currentIndex s + 1 \<and>
                (ratingBatch (onEnd W tx ty vx now s) = ratingBatch s @ [r] \<and>
                   onSwipe_calls (onEnd W tx ty vx now s) = onSwipe_calls s
                 \<or> ratingBatch (onEnd W tx ty vx now s) = [] \<and>
                   onSwipe_calls (onEnd W tx ty vx now s) = onSwipe_calls s @ [r]))) \<and>
         (\<bar>tx\<bar> \<le> SWIPE_THRESHOLD W \<longrightarrow>
            ratingBatch (onEnd W tx ty vx now s) = ratingBatch s \<and>
            onSwipe_calls (onEnd W tx ty vx now s) = onSwipe_calls s \<and>
            totalSwipes (onEnd W tx ty vx now s) = totalSwipes s \<and>
            currentIndex (onEnd W tx ty vx now s) = currentIndex s \<and>
            translateX (onEnd W tx ty vx now s) = 0 \<and>
            translateY (onEnd W tx ty vx now s) = 0 \<and>
            rotation (onEnd W tx ty vx now s) = 0 \<and>
            scale (onEnd W tx ty vx now s) = 1) \<and>
         (\<bar>tx\<bar> > th \<longrightarrow>
            (\<exists>l. logDirection l = (if tx > 0 then right else left) \<and>
                 consoleB (onEndB W th tx ty b) = consoleB b @ [l]) \<and>
            (\<exists>l. logDirection l = (if tx > 0 then right else left) \<and>
                 consoleS (onPanResponderRelease W th tx ty c) = consoleS c @ [l])) \<and>
         (\<bar>tx\<bar> \<le> th \<longrightarrow>
            onEndB W th tx ty b =
              b\<lparr>translateXB := 0, translateYB := 0, rotateB := 0, scaleB := 1\<rparr> \<and>
            onPanResponderRelease W th tx ty c = c\<lparr>panX := 0, panY := 0, scaleS := 1\<rparr>)"
  using release_enhanced [OF assms, where tx = tx and W = W and ty = ty and vx = vx and now = now]
    release_basic [where tx = tx and sw = W and th = th and ty = ty and b = b and c = c]
  by blast

text \<open>The theorem at a release of 150 and at one of 100 points on a screen 400 wide, a
  card at the index: the enhanced deck's threshold is 100, and the basic decks' is 120,
  the value of \<open>400 * 0.3\<close> in doubles.\<close>

theorem release_decision_witness:
  "currentIndex oneCardDeck < length (images oneCardDeck) \<and>
   \<bar>150\<bar> > SWIPE_THRESHOLD 400 \<and>
   totalSwipes (onEnd 400 150 0 900 5 oneCardDeck) = totalSwipes oneCardDeck + 1 \<and>
   currentIndex (onEnd 400 150 0 900 5 oneCardDeck) = currentIndex oneCardDeck + 1 \<and>
   \<bar>100\<bar> \<le> SWIPE_THRESHOLD 400 \<and>
   ratingBatch (onEnd 400 100 0 900 5 oneCardDeck) = ratingBatch oneCardDeck \<and>
   totalSwipes (onEnd 400 100 0 900 5 oneCardDeck) = totalSwipes oneCardDeck \<and>
   rotation (onEnd 400 100 0 900 5 oneCardDeck) = 0 \<and>
   scale (onEnd 400 100 0 900 5 oneCardDeck) = 1 \<and>
   \<bar>150\<bar> > (120::real) \<and>
   (\<exists>l. logDirection l = right \<and>
        consoleB (onEndB 400 120 150 0 lastCardB) = consoleB lastCardB @ [l]) \<and>
   \<bar>100\<bar> \<le> (120::real) \<and>
   onPanResponderRelease 400 120 100 0 lastCardS =
     lastCardS\<lparr>panX := 0, panY := 0, scaleS := 1\<rparr>"
proof -
  note h = oneCardDeck_has_card
  have a: "\<bar>150\<bar> > SWIPE_THRESHOLD 400" and b: "\<bar>100\<bar> \<le> SWIPE_THRESHOLD 400"
    by (simp_all add: threshold_400)
  have a': "\<bar>150\<bar> > (120::real)" and b': "\<bar>100\<bar> \<le> (120::real)"
    by simp_all
  from release_decision [OF h, where tx = 150 and W = 400 and ty = 0 and vx = 900 and now = 5
      and th = 120 and b = lastCardB and c = lastCardS] a a'
  have "totalSwipes (onEnd 400 150 0 900 5 oneCardDeck) = totalSwipes oneCardDeck + 1 \<and>
        currentIndex (onEnd 400 150 0 900 5 oneCardDeck) = currentIndex oneCardDeck + 1 \<and>
        (\<exists>l. logDirection l = right \<and>
             consoleB (onEndB 400 120 150 0 lastCardB) = consoleB lastCardB @ [l])"
    by auto
  moreover
  from release_decision [OF h, where tx = 100 and W = 400 and ty = 0 and vx = 900 and now = 5
      and th = 120 and b = lastCardB and c = lastCardS] b b'
  have "ratingBatch (onEnd 400 100 0 900 5 oneCardDeck) = ratingBatch oneCardDeck \<and>
        totalSwipes (onEnd 400 100 0 900 5 oneCardDeck) = totalSwipes oneCardDeck \<and>
        rotation (onEnd 400 100 0 900 5 oneCardDeck) = 0 \<and>
        scale (onEnd 400 100 0 900 5 oneCardDeck) = 1 \<and>
        onPanResponderRelease 400 120 100 0 lastCardS =
          lastCardS\<lparr>panX := 0, panY := 0, scaleS := 1\<rparr>"
    by blast
  ultimately show ?thesis using h a b a' b' by blast
qed

text \<open>Claim C2 as the spec words it, with \<open>|dx| \<ge> threshold\<close>, fails on the boundary:
  on a screen 400 wide the threshold is 100, and a release at exactly 100 with a card at
  the index builds no rating and leaves the index where it was.\<close>

theorem release_at_threshold_counterexample:
  "SWIPE_THRESHOLD 400 \<le> \<bar>100\<bar> \<and>
   currentIndex oneCardDeck < length (images oneCardDeck) \<and>
   ratingBatch (onEnd 400 100 0 900 5 oneCardDeck) = [] \<and>
   onSwipe_calls (onEnd 400 100 0 900 5 oneCardDeck) = [] \<and>
   totalSwipes (onEnd 400 100 0 900 5 oneCardDeck) = 0 \<and>
   currentIndex (onEnd 400 100 0 900 5 oneCardDeck) = 0"
  by (simp add: SWIPE_THRESHOLD_def onEnd_def oneCardDeck_def initialDeck_def)

section \<open>The rating of a committed swipe\<close>

text \<open>
  Claim C7. A release above the threshold with a card at the index builds one rating
  \<open>r\<close>, appended to the batch or handed to \<open>onSwipe\<close>, with
  \<open>swipeVelocity = |v|\<close> and \<open>confidence = min 1 (|v| / 1000)\<close> for the release velocity
  \<open>v\<close>; the confidence lies between 0 and 1.
\<close>

theorem rating_velocity_confidence:
  assumes "currentIndex s < length (images s)" and "\<bar>tx\<bar> > SWIPE_THRESHOLD W"
  shows "\<exists>r. (ratingBatch (onEnd W tx ty v now s) = ratingBatch s @ [r] \<and>
                onSwipe_calls (onEnd W tx ty v now s) = onSwipe_calls s
              \<or> ratingBatch (onEnd W tx ty v now s) = [] \<and>
                onSwipe_calls (onEnd W tx ty v now s) = onSwipe_calls s @ [r]) \<and>
             swipeVelocity r = \<bar>v\<bar> \<and>
             confidence r = min 1 (\<bar>v\<bar> / 1000) \<and>
             0 \<le> confidence r \<and> confidence r \<le> 1"
proof -
  let ?r = "swipeRating (images s ! currentIndex s) (if tx > 0 then right else left) v now
              (now - swipeStartTime s)"
  have "ratingBatch (onEnd W tx ty v now s) = ratingBatch s @ [?r] \<and>
                onSwipe_calls (onEnd W tx ty v now s) = onSwipe_calls s
              \<or> ratingBatch (onEnd W tx ty v now s) = [] \<and>
                onSwipe_calls (onEnd W tx ty v now s) = onSwipe_calls s @ [?r]"
    using assms by (simp add: onEnd_batch onEnd_calls updater_fst updater_snd)
  moreover have "swipeVelocity ?r = \<bar>v\<bar>" and "confidence ?r = min 1 (\<bar>v\<bar> / 1000)"
    by (simp_all add: swipeRating_def)
  moreover have "0 \<le> confidence ?r \<and> confidence ?r \<le> 1"
    by (rule confidence_bounds)
  ultimately show ?thesis by blast
qed

text \<open>A fast swipe to the left, 2500 points a second: velocity 2500, confidence 1.\<close>

theorem rating_velocity_confidence_witness:
  "currentIndex oneCardDeck < length (images oneCardDeck) \<and>
   \<bar>- 150\<bar> > SWIPE_THRESHOLD 400 \<and>
   (\<exists>r. (ratingBatch (onEnd 400 (- 150) 0 (- 2500) 5 oneCardDeck) = ratingBatch oneCardDeck @ [r] \<and>
          onSwipe_calls (onEnd 400 (- 150) 0 (- 2500) 5 oneCardDeck) = onSwipe_calls oneCardDeck
        \<or> ratingBatch (onEnd 400 (- 150) 0 (- 2500) 5 oneCardDeck) = [] \<and>
          onSwipe_calls (onEnd 400 (- 150) 0 (- 2500) 5 oneCardDeck) = onSwipe_calls oneCardDeck @ [r]) \<and>
        swipeVelocity r = 2500 \<and> confidence r = 1)"
proof -
  note h = oneCardDeck_has_card
  have a: "\<bar>- 150\<bar> > SWIPE_THRESHOLD 400"
    by (simp add: threshold_400)
  from rating_velocity_confidence [OF h a, where ty = 0 and v = "- 2500" and now = 5]
  obtain r where
    "ratingBatch (onEnd 400 (- 150) 0 (- 2500) 5 oneCardDeck) = ratingBatch oneCardDeck @ [r] \<and>
       onSwipe_calls (onEnd 400 (- 150) 0 (- 2500) 5 oneCardDeck) = onSwipe_calls oneCardDeck
     \<or> ratingBatch (onEnd 400 (- 150) 0 (- 2500) 5 oneCardDeck) = [] \<and>
       onSwipe_calls (onEnd 400 (- 150) 0 (- 2500) 5 oneCardDeck) = onSwipe_calls oneCardDeck @ [r]"
    and "swipeVelocity r = \<bar>- 2500\<bar>" and "confidence r = min 1 (\<bar>- 2500\<bar> / 1000)"
    by blast
  then show ?thesis using h a by auto
qed

section \<open>The guard for a missing card\<close>

text \<open>
  Claim C9. With no card at the current index (the index at or past the end of the
  deck), \<open>handleSwipeComplete\<close> returns the component as it got it; a release above the
  threshold then builds no rating: the batch, the index, the \<open>onSwipe\<close> log and the swipe
  counter are what they were.
\<close>

theorem missing_item_guard:
  assumes "length (images s) \<le> currentIndex s" and "\<bar>tx\<bar> > SWIPE_THRESHOLD W"
  shows "handleSwipeComplete (if tx > 0 then right else left) vx now s = s \<and>
         ratingBatch (onEnd W tx ty vx now s) = ratingBatch s \<and>
         currentIndex (onEnd W tx ty vx now s) = currentIndex s \<and>
         onSwipe_calls (onEnd W tx ty vx now s) = onSwipe_calls s \<and>
         totalSwipes (onEnd W tx ty vx now s) = totalSwipes s"
  using assms by (simp add: onEnd_commit handleSwipeComplete_missing)

theorem missing_item_guard_witness:
  "length (images (initialDeck [])) \<le> currentIndex (initialDeck []) \<and>
   \<bar>150\<bar> > SWIPE_THRESHOLD 400 \<and>
   ratingBatch (onEnd 400 150 0 900 5 (initialDeck [])) = [] \<and>
   currentIndex (onEnd 400 150 0 900 5 (initialDeck [])) = 0 \<and>
   onSwipe_calls (onEnd 400 150 0 900 5 (initialDeck [])) = [] \<and>
   totalSwipes (onEnd 400 150 0 900 5 (initialDeck [])) = 0"
proof -
  have h1: "length (images (initialDeck [])) \<le> currentIndex (initialDeck [])"
    by (simp add: initialDeck_def)
  have h2: "\<bar>150\<bar> > SWIPE_THRESHOLD 400"
    by (simp add: threshold_400)
  show ?thesis
    using missing_item_guard [OF h1 h2, where ty = 0 and vx = 900 and now = 5] h1 h2
    by (simp add: initialDeck_def)
qed

section \<open>The size of the rating batch\<close>

text \<open>
  Claim C10. Whenever \<open>handleSwipeComplete\<close> appends (a card stands at the index), the
  batch it stores is shorter than 10; and when the append brings the length to 10 or
  more, the stored batch is empty.
\<close>

theorem batch_below_threshold:
  assumes "currentIndex s < length (images s)"
  shows "length (ratingBatch (handleSwipeComplete dir v now s)) < 10 \<and>
         (10 \<le> length (ratingBatch s) + 1 \<longrightarrow>
            ratingBatch (handleSwipeComplete dir v now s) = [])"
  using assms by (simp add: handleSwipeComplete_batch updater_fst)

text \<open>A batch of nine takes its tenth rating.\<close>

theorem batch_below_threshold_witness:
  "currentIndex almostFullDeck < length (images almostFullDeck) \<and>
   length (ratingBatch (handleSwipeComplete right 500 7 almostFullDeck)) < 10 \<and>
   10 \<le> length (ratingBatch almostFullDeck) + 1 \<and>
   ratingBatch (handleSwipeComplete right 500 7 almostFullDeck) = []"
proof -
  have h: "currentIndex almostFullDeck < length (images almostFullDeck)"
    by (simp add: almostFullDeck_def initialDeck_def)
  have n: "10 \<le> length (ratingBatch almostFullDeck) + 1"
    by (simp add: almostFullDeck_def)
  show ?thesis
    using batch_below_threshold [OF h, where dir = right and v = 500 and now = 7] h n
    by blast
qed

section \<open>Flushing the rating batch\<close>

text \<open>
  Claim C1 on the code. The comments of lines 135 to 141 announce a batch submission, but
  the updater calls \<open>onSwipe\<close> with the rating of the tenth swipe alone and then drops the
  batch. Ten committed swipes on a fresh deck of ten cards: the rating consumer gets one
  call with the one rating of card 9, and the batch is empty; the ratings of cards 0 to 8
  reach nobody.
\<close>

theorem tenth_swipe_hands_over_one_rating:
  "ratingBatch (mount 50 tenCards) = [] \<and>
   currentIndex (mount 50 tenCards) + 10 \<le> length (images (mount 50 tenCards)) \<and>
   onSwipe_calls
     (run 400 50 (mount 50 tenCards)
        (map commitAt [1, 2, 3, 4, 5, 6, 7, 8, 9] @ [GestureEnd 150 0 900 10])) =
     [swipeRating (card ''9'' universal) right 900 10 10] \<and>
   ratingBatch
     (run 400 50 (mount 50 tenCards)
        (map commitAt [1, 2, 3, 4, 5, 6, 7, 8, 9] @ [GestureEnd 150 0 900 10])) = []"
proof -
  have a: "list_all (committing 400) (map commitAt [1, 2, 3, 4, 5, 6, 7, 8, 9])"
    by (simp add: committing_commitAt)
  have b: "length (map commitAt [1, 2, 3, 4, 5, 6, 7, 8, 9]) = 9"
    by simp
  have c: "\<bar>150\<bar> > SWIPE_THRESHOLD 400"
    by (simp add: threshold_400)
  have d: "ratingBatch (mount 50 tenCards) = []"
    by (rule mount_more_fields)
  have e: "currentIndex (mount 50 tenCards) + 10 \<le> length (images (mount 50 tenCards))"
    by (simp add: mount_fields tenCards_def)
  have f: "images (mount 50 tenCards) ! (currentIndex (mount 50 tenCards) + 9) = card ''9'' universal"
    by (simp add: mount_fields tenCards_def)
  from tenth_commit_flushes_last [OF a b c d e, of 50 0 900 10] d e
  show ?thesis
    unfolding f by (simp add: mount_more_fields)
qed

section \<open>Asking for more images\<close>

text \<open>
  Claim C3, as the code has it. The effect is level triggered: it runs after every
  render in which the index or the length of the deck changed, and signals whenever the
  buffer left is at most 10. A run of committed swipes that stays inside the deck,
  starting with a buffer of \<open>R\<close> cards, signals once for each advance that leaves at most
  10, that is \<open>k - (R - 11)\<close> times for \<open>k\<close> advances, both subtractions
  stopping at 0 (none while the buffer stays above 10). The count is for a run with no new
  \<open>images\<close> array in between: a refill that lifts the buffer above 10 stops the signals. A release
  that does not advance, a gesture start and a gesture update signal nothing; a new
  \<open>images\<close> array signals once when its length differs and the buffer is then at most 10.
\<close>

theorem need_more_signal:
  "(list_all (committing W) evs \<and> currentIndex s + length evs \<le> length (images s) \<longrightarrow>
      onNeedMoreImages_calls (run W N s evs) =
        onNeedMoreImages_calls s + (length evs - (length (images s) - currentIndex s - 11))) \<and>
   onNeedMoreImages_calls (step W N s (GestureEnd tx ty vx now)) =
     onNeedMoreImages_calls s +
       (if \<bar>tx\<bar> > SWIPE_THRESHOLD W \<and> currentIndex s < length (images s) \<and>
           int (length (images s)) - int (currentIndex s + 1) \<le> 10 then 1 else 0) \<and>
   onNeedMoreImages_calls (step W N s (NewImages imgs)) =
     onNeedMoreImages_calls s +
       (if length imgs \<noteq> length (images s) \<and>
           int (length imgs) - int (currentIndex s) \<le> 10 then 1 else 0) \<and>
   onNeedMoreImages_calls (step W N s (GestureBegin now)) = onNeedMoreImages_calls s \<and>
   onNeedMoreImages_calls (step W N s (GestureUpdate tx ty)) = onNeedMoreImages_calls s"
  using commits_needMore [of W evs s N] step_needMore [of W N s tx ty vx now]
    step_needMore_images [of W N s imgs] step_needMore_other [of W N s]
  by blast

text \<open>From a buffer of 12 down to 9 takes three advances, and they signal twice.\<close>

theorem need_more_signal_witness:
  "list_all (committing 400) [commitAt 1, commitAt 2, commitAt 3] \<and>
   currentIndex (mount 50 twelveCards) + length [commitAt 1, commitAt 2, commitAt 3]
     \<le> length (images (mount 50 twelveCards)) \<and>
   onNeedMoreImages_calls (run 400 50 (mount 50 twelveCards) [commitAt 1, commitAt 2, commitAt 3])
     = 2"
proof -
  have a: "list_all (committing 400) [commitAt 1, commitAt 2, commitAt 3]"
    by (simp add: committing_commitAt)
  have b: "currentIndex (mount 50 twelveCards) + length [commitAt 1, commitAt 2, commitAt 3]
     \<le> length (images (mount 50 twelveCards))"
    by (simp add: mount_fields twelveCards_def tenCards_def)
  have "onNeedMoreImages_calls (run 400 50 (mount 50 twelveCards) [commitAt 1, commitAt 2, commitAt 3]) =
        onNeedMoreImages_calls (mount 50 twelveCards) +
          (length [commitAt 1, commitAt 2, commitAt 3] -
             (length (images (mount 50 twelveCards)) - currentIndex (mount 50 twelveCards) - 11))"
    using need_more_signal [where W = 400 and N = 50 and s = "mount 50 twelveCards"
        and evs = "[commitAt 1, commitAt 2, commitAt 3]"] a b
    by blast
  then show ?thesis using a b
    by (simp add: mount_fields twelveCards_def tenCards_def)
qed

text \<open>Claim C3 as the spec words it asks for exactly one signal on the way from 12 to 9
  and for none after it until the deck is refilled. On a deck of twelve cards the three
  advances signal twice (at 10 and at 9), and a fourth advance, the deck still the same
  twelve cards, signals a third time.\<close>

theorem need_more_signal_counterexample:
  "int (length (images (mount 50 twelveCards))) - int (currentIndex (mount 50 twelveCards)) = 12 \<and>
   onNeedMoreImages_calls (mount 50 twelveCards) = 0 \<and>
   int (length (images (run 400 50 (mount 50 twelveCards) [commitAt 1, commitAt 2, commitAt 3])))
     - int (currentIndex (run 400 50 (mount 50 twelveCards) [commitAt 1, commitAt 2, commitAt 3]))
     = 9 \<and>
   onNeedMoreImages_calls (run 400 50 (mount 50 twelveCards) [commitAt 1, commitAt 2, commitAt 3])
     = 2 \<and>
   images (run 400 50 (mount 50 twelveCards) [commitAt 1, commitAt 2, commitAt 3, commitAt 4])
     = twelveCards \<and>
   onNeedMoreImages_calls
     (run 400 50 (mount 50 twelveCards) [commitAt 1, commitAt 2, commitAt 3, commitAt 4]) = 3"
  by (simp add: run_def commitAt_def step_needMore step_index step_images mount_fields
        threshold_400 twelveCards_def tenCards_def del: step.simps)

section \<open>The prefetch window\<close>

text \<open>
  Claim C4, as the code has it. The component keeps no record of what is cached. For a
  window size \<open>N \<ge> 0\<close>, one run of the prefetch effect asks for the cards at the deck
  positions from \<open>currentIndex\<close> up to, but not including, the smaller of
  \<open>currentIndex + N\<close> and the deck's length: each of these positions once, cached or
  not, and no other position.
\<close>

theorem prefetch_window:
  assumes "0 \<le> N"
  shows "mset (imagesToPrefetch N s) =
           mset (map ((!) (images s))
                  [currentIndex s ..< min (length (images s)) (currentIndex s + nat N)]) \<and>
         prefetch_calls (aggressivePrefetch N s) =
           prefetch_calls s @ map url (imagesToPrefetch N s)"
  using assms by (simp add: imagesToPrefetch_window aggressivePrefetch_def del: mset_map)

theorem prefetch_window_witness:
  "(0::int) \<le> 2 \<and>
   mset (imagesToPrefetch 2 ((initialDeck mixedCards)\<lparr>currentIndex := 1\<rparr>)) =
     mset [card ''1'' personal, card ''2'' demographic]"
proof -
  have "mset (imagesToPrefetch 2 ((initialDeck mixedCards)\<lparr>currentIndex := 1\<rparr>)) =
          mset (map ((!) (images ((initialDeck mixedCards)\<lparr>currentIndex := 1\<rparr>)))
                  [currentIndex ((initialDeck mixedCards)\<lparr>currentIndex := 1\<rparr>) ..<
                   min (length (images ((initialDeck mixedCards)\<lparr>currentIndex := 1\<rparr>)))
                     (currentIndex ((initialDeck mixedCards)\<lparr>currentIndex := 1\<rparr>) + nat 2)])"
    using prefetch_window [of 2 "(initialDeck mixedCards)\<lparr>currentIndex := 1\<rparr>"] by simp
  also have "\<dots> = mset [card ''1'' personal, card ''2'' demographic]"
    by (simp add: initialDeck_def mixedCards_def upt_rec [of 1] upt_rec [of 2] del: mset_map)
  finally show ?thesis by simp
qed

text \<open>Claim C4 as the spec words it leaves out the cards already cached. With a window
  of two over four cards, mounting fetches cards 1 and 0, and the advance to index 1 then
  fetches card 1 a second time, together with card 2.\<close>

theorem prefetch_again_counterexample:
  "prefetch_calls (mount 2 mixedCards) = [''u/1'', ''u/0''] \<and>
   prefetch_calls (step 400 2 (mount 2 mixedCards) (commitAt 1)) =
     [''u/1'', ''u/0'', ''u/1'', ''u/2'']"
  by (simp add: mount_def commitAt_def runEffects_def Let_def onEnd_index onEnd_images
        needMoreEffect_fields aggressivePrefetch_def imagesToPrefetch_def prefetchWindow_def
        sort_by_tiers slice_def initialDeck_def mixedCards_def card_def threshold_400
        onEnd_def handleSwipeComplete_def at_index_def)

section \<open>The order of the prefetch requests\<close>

text \<open>
  Claim C5. The requests go out in the order of \<open>imagesToPrefetch\<close>: all personal cards
  of the window, then all demographic ones, then all universal ones, each group in deck
  order; so the tier rank never rises along the requests.
\<close>

theorem prefetch_by_tier:
  "imagesToPrefetch N s =
     filter (\<lambda>i. tier i = personal) (prefetchWindow N s) @
     filter (\<lambda>i. tier i = demographic) (prefetchWindow N s) @
     filter (\<lambda>i. tier i = universal) (prefetchWindow N s) \<and>
   sorted_wrt (\<lambda>a b. tierPriority (tier b) \<le> tierPriority (tier a)) (imagesToPrefetch N s) \<and>
   prefetch_calls (aggressivePrefetch N s) = prefetch_calls s @ map url (imagesToPrefetch N s)"
  by (simp add: imagesToPrefetch_def sort_by_tiers [symmetric] sorted_sort_by
        aggressivePrefetch_def)

text \<open>Cards 1 and 3 are personal, card 2 demographic, card 0 universal.\<close>

theorem prefetch_by_tier_witness:
  "map url (imagesToPrefetch 50 (initialDeck mixedCards)) = [''u/1'', ''u/3'', ''u/2'', ''u/0'']"
proof -
  have w: "prefetchWindow 50 (initialDeck mixedCards) = mixedCards"
    by (simp add: prefetchWindow_def slice_def initialDeck_def mixedCards_def)
  show ?thesis
    using prefetch_by_tier [of 50 "initialDeck mixedCards"] unfolding w
    by (simp add: mixedCards_def card_def)
qed

section \<open>The rotation of the dragged card\<close>

text \<open>
  Claim C6 on the code. Inside \<open>[- W, W]\<close> both decks turn the card by \<open>30 * dx / W\<close>
  degrees. Outside, the basic deck passes \<open>Extrapolate.CLAMP\<close> and stops at 30 degrees;
  the enhanced deck passes no extrapolation and goes on linearly: at twice the screen
  width the card is turned by 60 degrees.
\<close>

theorem rotation_not_clamped:
  "\<bar>800\<bar> > (400::real) \<and>
   rotation (onUpdate 400 800 0 oneCardDeck) = 60 \<and>
   rotation (onUpdate 400 (- 800) 0 oneCardDeck) = - 60 \<and>
   rotateB (onActive 400 800 0 lastCardB) = 30 \<and>
   rotateB (onActive 400 (- 800) 0 lastCardB) = - 30"
  by (simp add: rotation_onUpdate rotate_onActive)

section \<open>The current index\<close>

text \<open>
  Claim C8, as the code has it. In the enhanced deck no run of events lowers the index.
  In the basic decks a release strictly above the threshold \<open>th\<close> the code computes for
  \<open>screenWidth * 0.3\<close> moves the index one step forward below the last card and back to 0
  on the last card; a release at or below the threshold leaves it.
\<close>

theorem index_moves:
  "currentIndex s \<le> currentIndex (run W N s evs) \<and>
   currentIndexB (onEndB sw th tx ty b) =
     (if \<bar>tx\<bar> > th
      then (if currentIndexB b + 1 < length (imagesB b) then currentIndexB b + 1 else 0)
      else currentIndexB b) \<and>
   currentIndexS (onPanResponderRelease sw th tx ty c) =
     (if \<bar>tx\<bar> > th
      then (if currentIndexS c + 1 < 5 then currentIndexS c + 1 else 0)
      else currentIndexS c)"
  by (simp add: run_index_mono onEndB_index onPanResponderRelease_index)

text \<open>Claim C8 as the spec words it fails in the basic decks: on a screen 400 wide
  (threshold 120) a release at 200 on the last of the five cards brings the index from 4
  back to 0.\<close>

theorem index_wraps_counterexample:
  "currentIndexB lastCardB = 4 \<and> currentIndexB (onEndB 400 120 200 0 lastCardB) = 0 \<and>
   currentIndexS lastCardS = 4 \<and>
   currentIndexS (onPanResponderRelease 400 120 200 0 lastCardS) = 0"
  by (simp add: onEndB_index onPanResponderRelease_index lastCardB_def lastCardS_def
        length_sampleImages)

end
